theory Spec2Isabelle
  imports Complex_Main
begin

section \<open>Conventions of the embedding\<close>

text \<open>
  The development embeds the analysis-and-fusion core of the classroom dashboard:
  \<^verbatim>\<open>Speech_analyzer.py\<close> (pace and tone classification, speech nudge) and
  \<^verbatim>\<open>app.py\<close> (engagement score, the shared snapshot and the two cycles).

  \<^item> A Python \<^verbatim>\<open>str\<close> is a \<^typ>\<open>string\<close> holding the UTF-8 bytes of the source
    text, so an emoji of the source is the few bytes that encode it. Only concatenation
    and equality of strings are used, and both agree on code points and on their UTF-8
    encoding.
  \<^item> A Python \<^verbatim>\<open>float\<close> is the \<^typ>\<open>real\<close> it denotes: the comparisons of the source
    are exact. A decimal constant of the source stands for its decimal value. A float
    quotient is rounded to a double; the rounding \<open>fl\<close> of the platform is an argument
    of the model, and every statement about a quotient holds for every rounding.
  \<^item> A dict with a fixed set of keys is a record. The source uses the key
    \<^verbatim>\<open>status\<close> in several dicts, so the fields carry the dict's name as a prefix.
    A variable of the source that has the name of a snapshot field is written with a prime.
  \<^item> A call that may raise returns a sum: \<open>Inl\<close> the exception, \<open>Inr\<close> the value.
  \<^item> Camera, microphone, transcription service and numeric feature extraction are
    outside the core. What they deliver to the core is an argument of the model.
\<close>

datatype py_error = ZeroDivisionError

text \<open>
  \<^verbatim>\<open>a / b\<close> on floats: a zero divisor raises, a zero dividend gives zero, and any other
  quotient is rounded by \<open>fl\<close>.
\<close>

definition py_truediv :: "(real \<Rightarrow> real) \<Rightarrow> real \<Rightarrow> real \<Rightarrow> py_error + real" where
  "py_truediv fl a b =
     (if b = 0 then Inl ZeroDivisionError
      else if a = 0 then Inr 0
      else Inr (fl (a / b)))"

text \<open>
  The rounding that leaves a value as it is. It agrees with the rounding to a double on
  every value that is a double, and is used below only in examples whose quotients
  are doubles.
\<close>

definition exact :: "real \<Rightarrow> real" where
  "exact x = x"

text \<open>
  The rounding to a double on the three quotients that \<^verbatim>\<open>_analyze_pace\<close> forms for 3
  words in 28800 samples at 16000 Hz: the doubles nearest to 9/5, to that double over
  60, and to 3 over the second double, printed by Python as 1.8, 0.030000000000000002
  and 99.99999999999999. Any other value is left as it is.
\<close>

definition doubles_at_edge :: "real \<Rightarrow> real" where
  "doubles_at_edge x =
     (if x = 9 / 5 then 8106479329266893 / 2 ^ 52
      else if x = 8106479329266893 / 2 ^ 52 / 60 then 8646911284551353 / 2 ^ 58
      else if x = 3 / (8646911284551353 / 2 ^ 58) then 7036874417766399 / 2 ^ 46
      else x)"

text \<open>\<^verbatim>\<open>int(x)\<close> of a float truncates towards zero.\<close>

definition py_int :: "real \<Rightarrow> int" where
  "py_int x = (if 0 \<le> x then \<lfloor>x\<rfloor> else \<lceil>x\<rceil>)"

text \<open>\<^verbatim>\<open>str(n)\<close> of an integer: decimal digits, with a minus sign when negative.\<close>

definition digit_char :: "nat \<Rightarrow> char" where
  "digit_char d = ''0123456789'' ! d"

fun str_nat :: "nat \<Rightarrow> string" where
  "str_nat n = (if n < 10 then [digit_char n] else str_nat (n div 10) @ [digit_char (n mod 10)])"

declare str_nat.simps [simp del]

definition str_int :: "int \<Rightarrow> string" where
  "str_int i = (if i < 0 then CHR ''-'' # str_nat (nat (- i)) else str_nat (nat i))"

text \<open>\<^verbatim>\<open>sep.join(xs)\<close>.\<close>

fun join :: "string \<Rightarrow> string list \<Rightarrow> string" where
  "join sep [] = []"
| "join sep [x] = x"
| "join sep (x # y # ys) = x @ sep @ join sep (y # ys)"


section \<open>Speech\_analyzer.py\<close>

subsection \<open>Pace: \<^verbatim>\<open>SpeechAnalyzer._analyze_pace\<close>\<close>

record pace_result =
  pace_status :: string
  pace_wpm :: int
  pace_word_count :: nat

text \<open>
  What transcription and audio loading deliver to \<^verbatim>\<open>_analyze_pace\<close>: either the
  transcript's word count together with the number of samples and the sample rate of
  the loaded audio, or one of the three exception classes the function handles.
\<close>

datatype pace_input =
  Heard nat nat real
  | UnknownValueError
  | RequestError
  | OtherException

text \<open>\<^verbatim>\<open>duration_minutes = len(y) / sample_rate / 60\<close>\<close>

definition duration_minutes_of ::
    "(real \<Rightarrow> real) \<Rightarrow> nat \<Rightarrow> real \<Rightarrow> py_error + real" where
  "duration_minutes_of fl len_y sample_rate =
     (case py_truediv fl (real len_y) sample_rate of
        Inl e \<Rightarrow> Inl e
      | Inr seconds \<Rightarrow> py_truediv fl seconds 60)"

text \<open>\<^verbatim>\<open>wpm = word_count / duration_minutes if duration_minutes > 0 else 0\<close>\<close>

definition words_per_minute ::
    "(real \<Rightarrow> real) \<Rightarrow> nat \<Rightarrow> real \<Rightarrow> py_error + real" where
  "words_per_minute fl word_count duration_minutes =
     (if duration_minutes > 0 then py_truediv fl (real word_count) duration_minutes
      else Inr 0)"

text \<open>The \<^verbatim>\<open>if\<close>/\<^verbatim>\<open>elif\<close> chain that categorizes the pace, in the source's order.\<close>

definition categorize_pace :: "real \<Rightarrow> string" where
  "categorize_pace wpm =
     (if wpm > 180 then ''too_fast''
      else if wpm > 160 then ''fast''
      else if wpm < 100 then ''too_slow''
      else if wpm < 120 then ''slow''
      else ''good'')"

definition pace_unclear :: pace_result where
  "pace_unclear = \<lparr>pace_status = ''unclear'', pace_wpm = 0, pace_word_count = 0\<rparr>"

definition pace_error :: pace_result where
  "pace_error = \<lparr>pace_status = ''error'', pace_wpm = 0, pace_word_count = 0\<rparr>"

definition analyze_pace :: "(real \<Rightarrow> real) \<Rightarrow> pace_input \<Rightarrow> pace_result" where
  "analyze_pace fl inp =
     (case inp of
        Heard word_count len_y sample_rate \<Rightarrow>
          (case duration_minutes_of fl len_y sample_rate of
             Inl e \<Rightarrow> pace_error
           | Inr duration_minutes \<Rightarrow>
               (case words_per_minute fl word_count duration_minutes of
                  Inl e \<Rightarrow> pace_error
                | Inr wpm \<Rightarrow>
                    \<lparr>pace_status = categorize_pace wpm,
                     pace_wpm = py_int wpm,
                     pace_word_count = word_count\<rparr>))
      | UnknownValueError \<Rightarrow> pace_unclear
      | RequestError \<Rightarrow> pace_error
      | OtherException \<Rightarrow> pace_error)"


subsection \<open>Tone: \<^verbatim>\<open>SpeechAnalyzer._analyze_tone\<close>\<close>

record tone_result =
  tone_status :: string
  tone_energy :: real
  energy_status :: string
  tone_pitch_variation :: real
  monotone :: bool

text \<open>
  What feature extraction delivers to \<^verbatim>\<open>_analyze_tone\<close>: the mean RMS energy and
  the pitch variation, or an exception.
\<close>

datatype tone_input = Features real real | ToneException

definition categorize_energy :: "real \<Rightarrow> string" where
  "categorize_energy energy =
     (if energy < 2 / 100 then ''too_quiet''
      else if energy < 5 / 100 then ''quiet''
      else if energy > 15 / 100 then ''too_loud''
      else ''good'')"

definition tone_unknown :: tone_result where
  "tone_unknown =
     \<lparr>tone_status = ''unknown'', tone_energy = 0, energy_status = ''unknown'',
      tone_pitch_variation = 0, monotone = False\<rparr>"

definition analyze_tone :: "tone_input \<Rightarrow> tone_result" where
  "analyze_tone inp =
     (case inp of
        Features energy pitch_variation \<Rightarrow>
          (if pitch_variation < 1 / 10
           then \<lparr>tone_status = ''monotone'', tone_energy = energy,
                 energy_status = categorize_energy energy,
                 tone_pitch_variation = pitch_variation, monotone = True\<rparr>
           else \<lparr>tone_status = ''engaging'', tone_energy = energy,
                 energy_status = categorize_energy energy,
                 tone_pitch_variation = pitch_variation, monotone = False\<rparr>)
      | ToneException \<Rightarrow> tone_unknown)"


subsection \<open>Speech nudge: \<^verbatim>\<open>SpeechAnalyzer._generate_speech_nudge\<close>\<close>

text \<open>The emoji of the source's messages, as UTF-8.\<close>

definition emoji_rabbit :: string where
  "emoji_rabbit = [CHR 0xF0, CHR 0x9F, CHR 0x90, CHR 0x87]"
definition emoji_zap :: string where
  "emoji_zap = [CHR 0xE2, CHR 0x9A, CHR 0xA1]"
definition emoji_turtle :: string where
  "emoji_turtle = [CHR 0xF0, CHR 0x9F, CHR 0x90, CHR 0xA2]"
definition emoji_sleeping :: string where
  "emoji_sleeping = [CHR 0xF0, CHR 0x9F, CHR 0x98, CHR 0xB4]"
definition emoji_warning :: string where
  "emoji_warning = [CHR 0xE2, CHR 0x9A, CHR 0xA0, CHR 0xEF, CHR 0xB8, CHR 0x8F]"
definition emoji_chart_down :: string where
  "emoji_chart_down = [CHR 0xF0, CHR 0x9F, CHR 0x93, CHR 0x89]"
definition emoji_muted :: string where
  "emoji_muted = [CHR 0xF0, CHR 0x9F, CHR 0x94, CHR 0x87]"
definition emoji_loud :: string where
  "emoji_loud = [CHR 0xF0, CHR 0x9F, CHR 0x94, CHR 0x8A]"
definition emoji_check :: string where
  "emoji_check = [CHR 0xE2, CHR 0x9C, CHR 0x85]"
definition emoji_red_circle :: string where
  "emoji_red_circle = [CHR 0xF0, CHR 0x9F, CHR 0x94, CHR 0xB4]"

definition msg_too_fast :: "int \<Rightarrow> string" where
  "msg_too_fast wpm =
     emoji_rabbit @ '' You're speaking too fast ('' @ str_int wpm
       @ '' WPM). Slow down to help students absorb the material.''"

definition msg_fast :: "int \<Rightarrow> string" where
  "msg_fast wpm =
     emoji_zap @ '' Speaking a bit quickly ('' @ str_int wpm
       @ '' WPM). Consider slowing down slightly.''"

definition msg_too_slow :: "int \<Rightarrow> string" where
  "msg_too_slow wpm =
     emoji_turtle @ '' Speaking quite slowly ('' @ str_int wpm
       @ '' WPM). You can speed up a bit to maintain engagement.''"

definition msg_slow :: "int \<Rightarrow> string" where
  "msg_slow wpm =
     emoji_sleeping @ '' Pace is a bit slow ('' @ str_int wpm
       @ '' WPM). Try adding more energy.''"

definition msg_unclear :: string where
  "msg_unclear =
     emoji_warning
       @ '' Could not analyze speech - please speak more clearly or check your microphone.''"

definition msg_monotone :: string where
  "msg_monotone =
     emoji_chart_down
       @ '' Your tone sounds monotonous. Try varying your pitch and enthusiasm!''"

definition msg_too_quiet :: string where
  "msg_too_quiet =
     emoji_muted
       @ '' You're speaking too quietly. Increase your volume or check your microphone.''"

definition msg_too_loud :: string where
  "msg_too_loud = emoji_loud @ '' Volume is quite high. Lower it slightly for comfort.''"

definition msg_all_good_speech :: string where
  "msg_all_good_speech = emoji_check @ '' Great speech pace and tone! Keep it up!''"

text \<open>
  The three blocks of the source append to the list \<^verbatim>\<open>nudges\<close> in turn.
  \<^verbatim>\<open>_analyze_tone\<close> always supplies the keys \<^verbatim>\<open>monotone\<close> and
  \<^verbatim>\<open>energy_status\<close>, so the defaults of \<^verbatim>\<open>tone_result.get\<close> are never used.
\<close>

definition pace_nudges :: "pace_result \<Rightarrow> string list \<Rightarrow> string list" where
  "pace_nudges pace_result nudges =
     (if pace_status pace_result = ''too_fast''
        then nudges @ [msg_too_fast (pace_wpm pace_result)]
      else if pace_status pace_result = ''fast''
        then nudges @ [msg_fast (pace_wpm pace_result)]
      else if pace_status pace_result = ''too_slow''
        then nudges @ [msg_too_slow (pace_wpm pace_result)]
      else if pace_status pace_result = ''slow''
        then nudges @ [msg_slow (pace_wpm pace_result)]
      else if pace_status pace_result = ''unclear''
        then nudges @ [msg_unclear]
      else nudges)"

definition monotone_nudges :: "tone_result \<Rightarrow> string list \<Rightarrow> string list" where
  "monotone_nudges tone_result nudges =
     (if monotone tone_result then nudges @ [msg_monotone] else nudges)"

definition energy_nudges :: "tone_result \<Rightarrow> string list \<Rightarrow> string list" where
  "energy_nudges tone_result nudges =
     (if energy_status tone_result = ''too_quiet'' then nudges @ [msg_too_quiet]
      else if energy_status tone_result = ''too_loud'' then nudges @ [msg_too_loud]
      else nudges)"

definition generate_speech_nudge :: "pace_result \<Rightarrow> tone_result \<Rightarrow> string" where
  "generate_speech_nudge pace_result tone_result =
     (let nudges = energy_nudges tone_result
                     (monotone_nudges tone_result (pace_nudges pace_result []))
      in if nudges = [] then msg_all_good_speech else join '' | '' nudges)"


subsection \<open>\<^verbatim>\<open>SpeechAnalyzer.analyze_teacher_speech\<close>\<close>

record speech_result =
  res_pace :: string
  res_wpm :: int
  res_tone :: string
  res_energy :: real
  res_pitch_variation :: real
  res_nudge :: string

text \<open>
  \<^verbatim>\<open>_record_audio\<close> re-raises what the sound device raises; the other two inputs are
  what the two analyses meet once the recording exists.
\<close>

record speech_input =
  recording :: "string + unit"
  pace_in :: pace_input
  tone_in :: tone_input

definition speech_unknown :: speech_result where
  "speech_unknown =
     \<lparr>res_pace = ''unknown'', res_wpm = 0, res_tone = ''unknown'', res_energy = 0,
      res_pitch_variation = 0,
      res_nudge = ''Could not analyze speech. Please check your microphone.''\<rparr>"

definition analyze_teacher_speech :: "(real \<Rightarrow> real) \<Rightarrow> speech_input \<Rightarrow> speech_result" where
  "analyze_teacher_speech fl inp =
     (case recording inp of
        Inl e \<Rightarrow> speech_unknown
      | Inr audio_file \<Rightarrow>
          (let pace_result = analyze_pace fl (pace_in inp);
               tone_result = analyze_tone (tone_in inp);
               nudge = generate_speech_nudge pace_result tone_result
           in \<lparr>res_pace = pace_status pace_result,
               res_wpm = pace_wpm pace_result,
               res_tone = tone_status tone_result,
               res_energy = tone_energy tone_result,
               res_pitch_variation = tone_pitch_variation tone_result,
               res_nudge = nudge\<rparr>))"


section \<open>app.py\<close>

subsection \<open>The shared snapshot \<^verbatim>\<open>dashboard_data\<close>\<close>

record snapshot =
  engagement_score :: int
  emotion :: string
  audio_state :: string
  teacher_pace :: string
  teacher_wpm :: int
  teacher_tone :: string
  nudge :: string
  speech_nudge :: string
  timestamp :: real
  status :: string
  analyzing_speech :: bool

text \<open>The snapshot at start-up; \<open>t0\<close> is what \<^verbatim>\<open>time.time()\<close> returned then.\<close>

definition dashboard_data :: "real \<Rightarrow> snapshot" where
  \<open>dashboard_data t0 =
     \<lparr>engagement_score = 50, emotion = ''neutral'', audio_state = ''quiet'',
      teacher_pace = ''unknown'', teacher_wpm = 0, teacher_tone = ''unknown'',
      nudge = ''Click "Analyze My Teaching" to get started!'',
      speech_nudge = [], timestamp = t0, status = ''Ready'',
      analyzing_speech = False\<rparr>\<close>


subsection \<open>Engagement score and main nudge (\<^verbatim>\<open>update_student_data\<close>, steps 3 and 4)\<close>

definition emotion_impact :: "string \<Rightarrow> int \<Rightarrow> int" where
  "emotion_impact emotion' score =
     (if emotion' \<in> set [''happy'', ''neutral'', ''surprise''] then score + 20
      else if emotion' \<in> set [''sad'', ''angry'', ''fear''] then score - 20
      else score)"

definition audio_impact :: "string \<Rightarrow> int \<Rightarrow> int" where
  "audio_impact audio_state' score =
     (if audio_state' = ''silent'' then score - 20
      else if audio_state' = ''active'' then score + 10
      else score)"

definition pace_impact :: "string \<Rightarrow> int \<Rightarrow> int" where
  "pace_impact teacher_pace' score =
     (if teacher_pace' = ''too_fast'' then score - 15
      else if teacher_pace' = ''too_slow'' then score - 10
      else if teacher_pace' = ''good'' then score + 5
      else score)"

definition tone_impact :: "string \<Rightarrow> int \<Rightarrow> int" where
  "tone_impact teacher_tone' score =
     (if teacher_tone' = ''monotone'' then score - 15
      else if teacher_tone' = ''engaging'' then score + 10
      else score)"

text \<open>
  The score as the loop body computes it: base 50, the four impacts in the source's
  order, then \<^verbatim>\<open>max(0, min(100, score))\<close>.
\<close>

definition calculate_score :: "string \<Rightarrow> string \<Rightarrow> string \<Rightarrow> string \<Rightarrow> int" where
  "calculate_score emotion' audio_state' teacher_pace' teacher_tone' =
     (let score = 50;
          score = emotion_impact emotion' score;
          score = audio_impact audio_state' score;
          score = pace_impact teacher_pace' score;
          score = tone_impact teacher_tone' score
      in max 0 (min 100 score))"

definition nudge_all_good :: string where
  "nudge_all_good = emoji_check @ '' All good! Keep going.''"

definition nudge_low :: string where
  "nudge_low =
     emoji_warning @ '' Low engagement! Try asking a question or showing an example.''"

definition nudge_dropping :: string where
  "nudge_dropping =
     emoji_zap @ '' Engagement dropping. Consider a quick activity or recap.''"

definition main_nudge :: "int \<Rightarrow> string" where
  "main_nudge score =
     (let nudge' = nudge_all_good
      in if score < 40 then nudge_low
         else if score < 60 then nudge_dropping
         else nudge')"


subsection \<open>The student cycle: the locked sections of \<^verbatim>\<open>update_student_data\<close>\<close>

text \<open>
  What one pass of the loop body gets from outside: the emotion source, the audio
  source (state and message), each of which may raise, and the clock at the commit.
  \<open>Inl e\<close> is an exception of class \<^verbatim>\<open>Exception\<close> with message \<open>e\<close>, which the
  handler at line 125 catches. Of the two sources of this repository,
  \<^verbatim>\<open>get_classroom_emotion\<close> catches what its analysis raises and returns a label, and
  \<^verbatim>\<open>check_classroom_audio\<close> catches nothing that the sound device raises.
\<close>

record student_input =
  emotion_in :: "string + string"
  audio_in :: "string + string \<times> string"
  now :: real

text \<open>Lines 55-56.\<close>

definition student_mark :: "snapshot \<Rightarrow> snapshot" where
  "student_mark d = d\<lparr>status := ''Analyzing students...''\<rparr>"

text \<open>
  Lines 58-66: the two sources are asked in turn; an exception of the first skips
  the second.
\<close>

definition sense :: "student_input \<Rightarrow> string + string \<times> string" where
  "sense inp =
     (case emotion_in inp of
        Inl e \<Rightarrow> Inl e
      | Inr emotion' \<Rightarrow>
          (case audio_in inp of
             Inl e \<Rightarrow> Inl e
           | Inr (audio_state', audio_message) \<Rightarrow> Inr (emotion', audio_state')))"

text \<open>Lines 114-120.\<close>

definition student_commit ::
    "int \<Rightarrow> string \<Rightarrow> string \<Rightarrow> string \<Rightarrow> real \<Rightarrow> snapshot \<Rightarrow> snapshot" where
  "student_commit score emotion' audio_state' nudge' t d =
     d\<lparr>engagement_score := score, emotion := emotion', audio_state := audio_state',
       nudge := nudge', timestamp := t, status := ''Active''\<rparr>"

text \<open>Lines 125-130: the handler of the loop body.\<close>

definition student_error :: "string \<Rightarrow> snapshot \<Rightarrow> snapshot" where
  "student_error e d = d\<lparr>status := ''Error: '' @ e\<rparr>"

text \<open>
  One pass of the loop body with nothing else running in between. The teacher's pace
  and tone are read from the snapshot (lines 84-88), not computed.
\<close>

definition student_iteration :: "student_input \<Rightarrow> snapshot \<Rightarrow> snapshot" where
  "student_iteration inp d =
     (if analyzing_speech d then d
      else
        (let d1 = student_mark d
         in case sense inp of
              Inl e \<Rightarrow> student_error e d1
            | Inr (emotion', audio_state') \<Rightarrow>
                (let score = calculate_score emotion' audio_state'
                               (teacher_pace d1) (teacher_tone d1);
                     nudge' = main_nudge score
                 in student_commit score emotion' audio_state' nudge' (now inp) d1)))"

text \<open>The \<^verbatim>\<open>while True\<close> loop, run for as many passes as there are inputs.\<close>

fun update_student_data :: "student_input list \<Rightarrow> snapshot \<Rightarrow> snapshot" where
  "update_student_data [] d = d"
| "update_student_data (inp # inps) d = update_student_data inps (student_iteration inp d)"


subsection \<open>The speech cycle: \<^verbatim>\<open>analyze_speech\<close> and its thread \<^verbatim>\<open>analyze\<close>\<close>

record response =
  resp_status :: string
  resp_message :: string

definition resp_already :: response where
  "resp_already =
     \<lparr>resp_status = ''error'', resp_message = ''Already analyzing speech. Please wait.''\<rparr>"

definition resp_started :: response where
  "resp_started =
     \<lparr>resp_status = ''success'',
      resp_message = ''Speech analysis started. Recording will begin in 2 seconds...''\<rparr>"

text \<open>
  The request handler (lines 154-220). Its test and its writes are one locked section.
  The result is the snapshot, the JSON reply, and whether the thread was started.
\<close>

definition analyze_speech :: "snapshot \<Rightarrow> snapshot \<times> response \<times> bool" where
  "analyze_speech d =
     (if analyzing_speech d then (d, resp_already, False)
      else (d\<lparr>analyzing_speech := True, status := ''Get ready to speak...'',
              speech_nudge := ''Preparing to record...''\<rparr>,
            resp_started, True))"

text \<open>Lines 177-179: the thread's first locked section.\<close>

definition analyze_progress :: "snapshot \<Rightarrow> snapshot" where
  "analyze_progress d =
     d\<lparr>status := ''Recording your speech...'',
       speech_nudge := emoji_red_circle @ '' Recording for 10 seconds... Speak naturally!''\<rparr>"

text \<open>Lines 193-199.\<close>

definition analyze_commit :: "speech_result \<Rightarrow> snapshot \<Rightarrow> snapshot" where
  "analyze_commit result d =
     d\<lparr>teacher_pace := res_pace result, teacher_wpm := res_wpm result,
       teacher_tone := res_tone result, speech_nudge := res_nudge result,
       status := ''Analysis complete!'', analyzing_speech := False\<rparr>"

text \<open>Lines 203-211: the handler of the thread.\<close>

definition analyze_error :: "string \<Rightarrow> snapshot \<Rightarrow> snapshot" where
  "analyze_error e d =
     d\<lparr>speech_nudge := ''Error analyzing speech: '' @ e, status := ''Error occurred'',
       analyzing_speech := False\<rparr>"

text \<open>
  What the thread does between its two locked sections (lines 181-190) and how it
  leaves the \<^verbatim>\<open>try\<close> statement:
  \<^item> \<open>Returned result\<close>: \<^verbatim>\<open>analyze_teacher_speech\<close> returned \<open>result\<close>, and
    the commit follows;
  \<^item> \<open>Raised e\<close>: an exception of class \<^verbatim>\<open>Exception\<close> with message \<open>e\<close> was raised;
    the handler at line 203 catches it, reports it and enters its locked section;
  \<^item> \<open>Escaped\<close>: a raise leaves the thread. The handler catches the class
    \<^verbatim>\<open>Exception\<close> only, so a raise of another class (\<^verbatim>\<open>SystemExit\<close>,
    \<^verbatim>\<open>KeyboardInterrupt\<close>) passes it; and the statement has no \<^verbatim>\<open>finally\<close>
    clause, so a raise inside the handler, before its locked section, skips that
    section too.
\<close>

datatype work_outcome =
  Returned speech_result
  | Raised string
  | Escaped

text \<open>The thread's last locked section, if it has one, by the outcome of the work.\<close>

definition analyze_finish :: "work_outcome \<Rightarrow> snapshot \<Rightarrow> snapshot" where
  "analyze_finish outcome d =
     (case outcome of
        Returned result \<Rightarrow> analyze_commit result d
      | Raised e \<Rightarrow> analyze_error e d
      | Escaped \<Rightarrow> d)"

text \<open>The whole thread with nothing else running in between.\<close>

definition analyze :: "work_outcome \<Rightarrow> snapshot \<Rightarrow> snapshot" where
  "analyze outcome d = analyze_finish outcome (analyze_progress d)"


subsection \<open>The three threads over the shared snapshot\<close>

text \<open>
  Every access to the snapshot is inside \<^verbatim>\<open>with data_lock\<close>, so a run of the program
  is an interleaving of locked sections. The student loop is at one of five places;
  each speech thread is before its first or before its last locked section.
  Sensing (no access to the snapshot) is taken together with the locked read of the
  teacher's metrics that follows it.
\<close>

datatype student_pc =
  S_Check
  | S_Mark
  | S_Sense
  | S_Commit int string string string
  | S_Error string

datatype speech_pc = T_Progress | T_Finish

datatype event =
  Student student_input
  | Trigger
  | Speech nat work_outcome

record system =
  shared :: snapshot
  student :: student_pc
  tasks :: "speech_pc list"
  replies :: "response list"

definition boot :: "real \<Rightarrow> system" where
  "boot t0 = \<lparr>shared = dashboard_data t0, student = S_Check, tasks = [], replies = []\<rparr>"

definition student_step :: "student_input \<Rightarrow> system \<Rightarrow> system" where
  "student_step inp s =
     (case student s of
        S_Check \<Rightarrow> (if analyzing_speech (shared s) then s else s\<lparr>student := S_Mark\<rparr>)
      | S_Mark \<Rightarrow> s\<lparr>shared := student_mark (shared s), student := S_Sense\<rparr>
      | S_Sense \<Rightarrow>
          (case sense inp of
             Inl e \<Rightarrow> s\<lparr>student := S_Error e\<rparr>
           | Inr (emotion', audio_state') \<Rightarrow>
               (let score = calculate_score emotion' audio_state'
                              (teacher_pace (shared s)) (teacher_tone (shared s))
                in s\<lparr>student := S_Commit score emotion' audio_state' (main_nudge score)\<rparr>))
      | S_Commit score emotion' audio_state' nudge' \<Rightarrow>
          s\<lparr>shared := student_commit score emotion' audio_state' nudge' (now inp) (shared s),
            student := S_Check\<rparr>
      | S_Error e \<Rightarrow> s\<lparr>shared := student_error e (shared s), student := S_Check\<rparr>)"

definition trigger_step :: "system \<Rightarrow> system" where
  "trigger_step s =
     (case analyze_speech (shared s) of
        (d, reply, started) \<Rightarrow>
          s\<lparr>shared := d,
            tasks := (if started then tasks s @ [T_Progress] else tasks s),
            replies := replies s @ [reply]\<rparr>)"

definition speech_step :: "nat \<Rightarrow> work_outcome \<Rightarrow> system \<Rightarrow> system" where
  "speech_step i outcome s =
     (if i < length (tasks s) then
        (case tasks s ! i of
           T_Progress \<Rightarrow>
             s\<lparr>shared := analyze_progress (shared s), tasks := (tasks s)[i := T_Finish]\<rparr>
         | T_Finish \<Rightarrow>
             s\<lparr>shared := analyze_finish outcome (shared s),
               tasks := take i (tasks s) @ drop (Suc i) (tasks s)\<rparr>)
      else s)"

fun step :: "event \<Rightarrow> system \<Rightarrow> system" where
  "step (Student inp) s = student_step inp s"
| "step Trigger s = trigger_step s"
| "step (Speech i outcome) s = speech_step i outcome s"

fun run :: "event list \<Rightarrow> system \<Rightarrow> system" where
  "run [] s = s"
| "run (e # es) s = run es (step e s)"


section \<open>The specification's wording\<close>

text \<open>
  The definitions of this section follow the specification's sentences, not the
  source. The theorems below compare them with the definitions above.
\<close>

subsection \<open>Engagement Scorer (specification 4.4)\<close>

definition spec_emotion_delta :: "string \<Rightarrow> int" where
  "spec_emotion_delta e =
     (if e = ''happy'' \<or> e = ''neutral'' \<or> e = ''surprise'' then 20
      else if e = ''sad'' \<or> e = ''angry'' \<or> e = ''fear'' then - 20
      else 0)"

definition spec_audio_delta :: "string \<Rightarrow> int" where
  "spec_audio_delta a = (if a = ''silent'' then - 20 else if a = ''active'' then 10 else 0)"

definition spec_pace_delta :: "string \<Rightarrow> int" where
  "spec_pace_delta p =
     (if p = ''too_fast'' then - 15
      else if p = ''too_slow'' then - 10
      else if p = ''good'' then 5
      else 0)"

definition spec_tone_delta :: "string \<Rightarrow> int" where
  "spec_tone_delta t = (if t = ''monotone'' then - 15 else if t = ''engaging'' then 10 else 0)"

definition spec_clamp :: "int \<Rightarrow> int" where
  "spec_clamp x = (if x < 0 then 0 else if 100 < x then 100 else x)"

definition spec_score :: "string \<Rightarrow> string \<Rightarrow> string \<Rightarrow> string \<Rightarrow> int" where
  "spec_score e a p t =
     spec_clamp (50 + spec_emotion_delta e + spec_audio_delta a
                    + spec_pace_delta p + spec_tone_delta t)"

subsection \<open>Speech Nudge Generator (specification 4.3)\<close>

text \<open>The pace templates, keyed by pace status.\<close>

definition spec_pace_templates :: "(string \<times> (int \<Rightarrow> string)) list" where
  "spec_pace_templates =
     [(''too_fast'', msg_too_fast),
      (''fast'', msg_fast),
      (''too_slow'', msg_too_slow),
      (''slow'', msg_slow),
      (''unclear'', \<lambda>wpm. msg_unclear)]"

definition spec_pace_message :: "pace_result \<Rightarrow> string option" where
  "spec_pace_message p =
     (case map_of spec_pace_templates (pace_status p) of
        None \<Rightarrow> None
      | Some template \<Rightarrow> Some (template (pace_wpm p)))"

definition spec_monotone_message :: "tone_result \<Rightarrow> string option" where
  "spec_monotone_message t = (if monotone t then Some msg_monotone else None)"

definition spec_energy_message :: "tone_result \<Rightarrow> string option" where
  "spec_energy_message t =
     (if energy_status t = ''too_quiet'' then Some msg_too_quiet
      else if energy_status t = ''too_loud'' then Some msg_too_loud
      else None)"

fun present :: "'a option list \<Rightarrow> 'a list" where
  "present [] = []"
| "present (None # ms) = present ms"
| "present (Some m # ms) = m # present ms"

definition spec_speech_nudge :: "pace_result \<Rightarrow> tone_result \<Rightarrow> string" where
  "spec_speech_nudge p t =
     (case present [spec_pace_message p, spec_monotone_message t, spec_energy_message t] of
        [] \<Rightarrow> msg_all_good_speech
      | m # ms \<Rightarrow> join '' | '' (m # ms))"

text \<open>
  The pace statuses of the specification's data model (section 3, field
  \<^verbatim>\<open>teacher_pace\<close>), and whether the generator of the source has a pace message for
  a status.
\<close>

definition spec_pace_statuses :: "string list" where
  "spec_pace_statuses =
     [''too_fast'', ''fast'', ''good'', ''slow'', ''too_slow'', ''unclear'', ''error'',
      ''unknown'']"

definition has_pace_message :: "string \<Rightarrow> bool" where
  "has_pace_message st =
     (pace_nudges \<lparr>pace_status = st, pace_wpm = 0, pace_word_count = 0\<rparr> [] \<noteq> [])"


section \<open>Notions used in the statements and proofs\<close>

text \<open>
  A state of the three threads is \<open>exclusive\<close> when at most one speech thread exists
  and the busy flag is set while one does. It is \<open>released\<close> when the busy flag is
  clear while no speech thread exists.
\<close>

definition exclusive :: "system \<Rightarrow> bool" where
  "exclusive s =
     (length (tasks s) \<le> 1 \<and> (tasks s \<noteq> [] \<longrightarrow> analyzing_speech (shared s)))"

definition released :: "system \<Rightarrow> bool" where
  "released s = (tasks s = [] \<longrightarrow> \<not> analyzing_speech (shared s))"

text \<open>
  The outcomes after which the thread has a last locked section, and the events whose
  outcome is one of them.
\<close>

fun caught :: "work_outcome \<Rightarrow> bool" where
  "caught (Returned result) = True"
| "caught (Raised e) = True"
| "caught Escaped = False"

fun handled :: "event \<Rightarrow> bool" where
  "handled (Speech i outcome) = caught outcome"
| "handled (Student inp) = True"
| "handled Trigger = True"

text \<open>
  A schedule in which the teacher's request arrives after the student loop has passed
  its check of the busy flag: check, request, then the student's and the speech
  thread's locked sections in turn, ending with the student's commit.
\<close>

definition race_input :: student_input where
  "race_input = \<lparr>emotion_in = Inr ''sad'', audio_in = Inr (''silent'', []), now = 1\<rparr>"

definition race_start :: "event list" where
  "race_start =
     [Student race_input, Trigger, Student race_input, Speech 0 (Raised []),
      Student race_input]"

definition race :: "event list" where
  "race = race_start @ [Student race_input]"

text \<open>
  Every message of the generator starts with two bytes other than those that start
  the all-good message; \<open>marked\<close> says so of a string.
\<close>

definition marked :: "string \<Rightarrow> bool" where
  "marked m =
     (case m of
        c1 # c2 # rest \<Rightarrow> (c1, c2) \<noteq> (CHR 0xE2, CHR 0x9C)
      | _ \<Rightarrow> False)"


section \<open>Pace classification\<close>

lemmas emoji_defs =
  emoji_rabbit_def emoji_zap_def emoji_turtle_def emoji_sleeping_def emoji_warning_def
  emoji_chart_down_def emoji_muted_def emoji_loud_def emoji_check_def emoji_red_circle_def

lemmas msg_defs =
  msg_too_fast_def msg_fast_def msg_too_slow_def msg_slow_def msg_unclear_def
  msg_monotone_def msg_too_quiet_def msg_too_loud_def msg_all_good_speech_def

lemma pace_bands:
  "(categorize_pace wpm = ''too_fast'' \<longleftrightarrow> 180 < wpm)
   \<and> (categorize_pace wpm = ''fast'' \<longleftrightarrow> 160 < wpm \<and> wpm \<le> 180)
   \<and> (categorize_pace wpm = ''too_slow'' \<longleftrightarrow> wpm < 100)
   \<and> (categorize_pace wpm = ''slow'' \<longleftrightarrow> 100 \<le> wpm \<and> wpm < 120)
   \<and> (categorize_pace wpm = ''good'' \<longleftrightarrow> 120 \<le> wpm \<and> wpm \<le> 160)"
  by (simp add: categorize_pace_def)

lemma pace_examples:
  "categorize_pace 181 = ''too_fast'' \<and> categorize_pace 170 = ''fast''
   \<and> categorize_pace 140 = ''good'' \<and> categorize_pace 110 = ''slow''
   \<and> categorize_pace 90 = ''too_slow''"
  by (simp add: categorize_pace_def)

lemma pace_of_heard:
  "words_per_minute fl word_count duration_minutes = Inr wpm \<Longrightarrow>
   duration_minutes_of fl len_y sample_rate = Inr duration_minutes \<Longrightarrow>
   analyze_pace fl (Heard word_count len_y sample_rate) =
     \<lparr>pace_status = categorize_pace wpm, pace_wpm = py_int wpm, pace_word_count = word_count\<rparr>"
  by (simp add: analyze_pace_def)

text \<open>
  C6. For every value of wpm the pace classifier returns one status, the first whose
  test succeeds in the order \<open>> 180\<close> too\_fast, \<open>> 160\<close> fast, \<open>< 100\<close> too\_slow,
  \<open>< 120\<close> slow, otherwise good. So each status is returned on exactly one band of
  values (fast on \<open>160 < wpm \<le> 180\<close>), and 181, 170, 140, 110 and 90 give too\_fast,
  fast, good, slow and too\_slow. The status that \<^verbatim>\<open>_analyze_pace\<close> returns for a
  transcript is the one of the wpm it computed, that is, of the rounded quotient,
  whatever the rounding.
\<close>

theorem pace_first_match:
  "(categorize_pace wpm = ''too_fast'' \<longleftrightarrow> 180 < wpm)
   \<and> (categorize_pace wpm = ''fast'' \<longleftrightarrow> 160 < wpm \<and> wpm \<le> 180)
   \<and> (categorize_pace wpm = ''too_slow'' \<longleftrightarrow> wpm < 100)
   \<and> (categorize_pace wpm = ''slow'' \<longleftrightarrow> 100 \<le> wpm \<and> wpm < 120)
   \<and> (categorize_pace wpm = ''good'' \<longleftrightarrow> 120 \<le> wpm \<and> wpm \<le> 160)
   \<and> categorize_pace 181 = ''too_fast'' \<and> categorize_pace 170 = ''fast''
   \<and> categorize_pace 140 = ''good'' \<and> categorize_pace 110 = ''slow''
   \<and> categorize_pace 90 = ''too_slow''
   \<and> (words_per_minute fl word_count duration_minutes = Inr wpm \<longrightarrow>
        duration_minutes_of fl len_y sample_rate = Inr duration_minutes \<longrightarrow>
        pace_status (analyze_pace fl (Heard word_count len_y sample_rate))
          = categorize_pace wpm)"
  using pace_bands [of wpm] pace_examples
    pace_of_heard [of fl word_count duration_minutes wpm len_y sample_rate]
  by simp

text \<open>
  An example at 300 words in 1440000 samples at 16000 Hz, where the quotients 90, 3/2
  and 200 are doubles.
\<close>

theorem pace_first_match_witness:
  "words_per_minute exact 300 (3 / 2) = Inr 200
   \<and> duration_minutes_of exact 1440000 16000 = Inr (3 / 2)
   \<and> pace_status (analyze_pace exact (Heard 300 1440000 16000)) = categorize_pace 200
   \<and> categorize_pace 200 = ''too_fast''"
proof -
  have w: "words_per_minute exact 300 (3 / 2) = Inr 200"
    by (simp add: words_per_minute_def py_truediv_def exact_def)
  have d: "duration_minutes_of exact 1440000 16000 = Inr (3 / 2)"
    by (simp add: duration_minutes_of_def py_truediv_def exact_def)
  from w d
    pace_first_match [where wpm = 200 and word_count = 300 and duration_minutes = "3 / 2"
      and len_y = 1440000 and sample_rate = 16000 and fl = exact]
  show ?thesis by simp
qed

text \<open>
  At the edge of a band the status follows the rounded quotient: 3 words in 1.8 seconds
  are 100 words per minute, but the doubles give 99.99999999999999, hence too\_slow and
  99 where the quotients without rounding give slow and 100.
\<close>

lemma pace_at_band_edge:
  "analyze_pace doubles_at_edge (Heard 3 28800 16000)
     = \<lparr>pace_status = ''too_slow'', pace_wpm = 99, pace_word_count = 3\<rparr>
   \<and> analyze_pace exact (Heard 3 28800 16000)
     = \<lparr>pace_status = ''slow'', pace_wpm = 100, pace_word_count = 3\<rparr>"
proof -
  have seconds: "py_truediv doubles_at_edge 28800 16000 = Inr (8106479329266893 / 2 ^ 52)"
    by (simp add: py_truediv_def doubles_at_edge_def)
  have minutes: "py_truediv doubles_at_edge (8106479329266893 / 2 ^ 52) 60
      = Inr (8646911284551353 / 2 ^ 58)"
    by (simp add: py_truediv_def doubles_at_edge_def)
  have wpm: "py_truediv doubles_at_edge 3 (8646911284551353 / 2 ^ 58)
      = Inr (7036874417766399 / 2 ^ 46)"
    by (simp add: py_truediv_def doubles_at_edge_def)
  have rounded: "analyze_pace doubles_at_edge (Heard 3 28800 16000)
     = \<lparr>pace_status = ''too_slow'', pace_wpm = 99, pace_word_count = 3\<rparr>"
    using seconds minutes wpm
    by (simp add: analyze_pace_def duration_minutes_of_def words_per_minute_def
        categorize_pace_def py_int_def)
  have unrounded: "analyze_pace exact (Heard 3 28800 16000)
     = \<lparr>pace_status = ''slow'', pace_wpm = 100, pace_word_count = 3\<rparr>"
    by (simp add: analyze_pace_def duration_minutes_of_def words_per_minute_def
        py_truediv_def exact_def categorize_pace_def py_int_def)
  from rounded unrounded show ?thesis by blast
qed

lemma pace_without_duration:
  "duration_minutes_of fl len_y sample_rate = Inr duration_minutes \<Longrightarrow>
   duration_minutes \<le> 0 \<Longrightarrow>
   analyze_pace fl (Heard word_count len_y sample_rate) =
     \<lparr>pace_status = ''too_slow'', pace_wpm = 0, pace_word_count = word_count\<rparr>"
  by (simp add: analyze_pace_def words_per_minute_def categorize_pace_def py_int_def)

lemma empty_recording_duration:
  "0 < sample_rate \<Longrightarrow> duration_minutes_of fl 0 sample_rate = Inr 0"
  by (simp add: duration_minutes_of_def py_truediv_def)

text \<open>
  C7. For every word count, when the duration in minutes is at most 0 the pace
  classifier does not divide: the wpm is 0 and no division by zero is raised, whatever
  the duration. An empty recording is so reported with wpm 0, and so is every recording
  whose measured duration is at most 0.
\<close>

theorem no_division_without_duration:
  "(duration_minutes \<le> 0 \<longrightarrow> words_per_minute fl word_count duration_minutes = Inr 0)
   \<and> words_per_minute fl word_count duration_minutes \<noteq> Inl ZeroDivisionError
   \<and> (0 < sample_rate \<longrightarrow>
        analyze_pace fl (Heard word_count 0 sample_rate) =
          \<lparr>pace_status = ''too_slow'', pace_wpm = 0, pace_word_count = word_count\<rparr>)
   \<and> (duration_minutes_of fl len_y sample_rate = Inr duration_minutes \<longrightarrow>
        duration_minutes \<le> 0 \<longrightarrow>
        analyze_pace fl (Heard word_count len_y sample_rate) =
          \<lparr>pace_status = ''too_slow'', pace_wpm = 0, pace_word_count = word_count\<rparr>)"
proof -
  have "0 < sample_rate \<longrightarrow>
        analyze_pace fl (Heard word_count 0 sample_rate) =
          \<lparr>pace_status = ''too_slow'', pace_wpm = 0, pace_word_count = word_count\<rparr>"
    using empty_recording_duration [of sample_rate fl]
      pace_without_duration [of fl 0 sample_rate 0 word_count]
    by simp
  moreover have "words_per_minute fl word_count duration_minutes \<noteq> Inl ZeroDivisionError"
    by (simp add: words_per_minute_def py_truediv_def)
  moreover have
    "duration_minutes \<le> 0 \<longrightarrow> words_per_minute fl word_count duration_minutes = Inr 0"
    by (simp add: words_per_minute_def)
  ultimately show ?thesis
    using pace_without_duration [of fl len_y sample_rate duration_minutes word_count]
    by blast
qed

theorem no_division_without_duration_witness:
  "(0::real) \<le> 0 \<and> words_per_minute exact 25 0 = Inr 0 \<and> (0::real) < 16000
   \<and> duration_minutes_of exact 0 16000 = Inr 0
   \<and> analyze_pace exact (Heard 25 0 16000) =
       \<lparr>pace_status = ''too_slow'', pace_wpm = 0, pace_word_count = 25\<rparr>"
proof -
  have d: "duration_minutes_of exact 0 16000 = Inr 0"
    by (simp add: duration_minutes_of_def py_truediv_def)
  with no_division_without_duration
    [where duration_minutes = 0 and word_count = 25 and sample_rate = 16000
      and fl = exact and len_y = 0]
  show ?thesis by simp
qed


section \<open>Engagement score and main nudge\<close>

lemma emotion_impact_delta: "emotion_impact e s = s + spec_emotion_delta e"
  by (simp add: emotion_impact_def spec_emotion_delta_def)

lemma audio_impact_delta: "audio_impact a s = s + spec_audio_delta a"
  by (simp add: audio_impact_def spec_audio_delta_def)

lemma pace_impact_delta: "pace_impact p s = s + spec_pace_delta p"
  by (simp add: pace_impact_def spec_pace_delta_def)

lemma tone_impact_delta: "tone_impact t s = s + spec_tone_delta t"
  by (simp add: tone_impact_def spec_tone_delta_def)

lemma spec_clamp_max_min: "spec_clamp x = max 0 (min 100 x)"
  by (simp add: spec_clamp_def)

lemma spec_clamp_range: "0 \<le> spec_clamp x \<and> spec_clamp x \<le> 100"
  by (simp add: spec_clamp_def)

lemma calculate_score_spec: "calculate_score e a p t = spec_score e a p t"
  by (simp only: calculate_score_def spec_score_def Let_def emotion_impact_delta
      audio_impact_delta pace_impact_delta tone_impact_delta spec_clamp_max_min)

lemma calculate_score_range: "0 \<le> calculate_score e a p t \<and> calculate_score e a p t \<le> 100"
  by (simp only: calculate_score_spec spec_score_def spec_clamp_range)

lemma scenario_c: "calculate_score ''happy'' ''active'' ''good'' ''engaging'' = 95"
  by (simp add: calculate_score_def emotion_impact_def audio_impact_def pace_impact_def
      tone_impact_def)

lemma main_nudges_distinct:
  "nudge_low \<noteq> nudge_dropping" "nudge_low \<noteq> nudge_all_good"
  "nudge_dropping \<noteq> nudge_all_good"
  by (simp_all add: nudge_low_def nudge_dropping_def nudge_all_good_def emoji_defs)

lemma main_nudge_bands:
  "(main_nudge s = nudge_low \<longleftrightarrow> s < 40)
   \<and> (main_nudge s = nudge_dropping \<longleftrightarrow> 40 \<le> s \<and> s < 60)
   \<and> (main_nudge s = nudge_all_good \<longleftrightarrow> 60 \<le> s)"
  using main_nudges_distinct by (auto simp add: main_nudge_def Let_def)

lemma iteration_commit:
  "\<not> analyzing_speech d \<Longrightarrow> sense inp = Inr (e, a) \<Longrightarrow>
   student_iteration inp d =
     student_commit (calculate_score e a (teacher_pace d) (teacher_tone d)) e a
       (main_nudge (calculate_score e a (teacher_pace d) (teacher_tone d))) (now inp)
       (student_mark d)"
  by (simp add: student_iteration_def student_mark_def Let_def)

text \<open>
  C5. For every emotion label, audio state, teacher pace and teacher tone the score
  computed by the student cycle is 50 plus the four deltas of the specification,
  clamped to the range from 0 to 100. The main nudge is the low-engagement warning
  exactly for a score below 40, the engagement-dropping caution exactly for a score
  from 40 to 59, and the all-good affirmation exactly for a score of 60 or more.
  Happy, active, good and engaging give 95 and the all-good affirmation. A pass of the
  student cycle that senses without failure writes this score and this nudge into
  the snapshot, with the pace and tone it reads there.
\<close>

theorem engagement_score_and_nudge:
  "calculate_score e a p t = spec_score e a p t
   \<and> 0 \<le> calculate_score e a p t \<and> calculate_score e a p t \<le> 100
   \<and> (main_nudge s = nudge_low \<longleftrightarrow> s < 40)
   \<and> (main_nudge s = nudge_dropping \<longleftrightarrow> 40 \<le> s \<and> s < 60)
   \<and> (main_nudge s = nudge_all_good \<longleftrightarrow> 60 \<le> s)
   \<and> calculate_score ''happy'' ''active'' ''good'' ''engaging'' = 95
   \<and> main_nudge 95 = nudge_all_good
   \<and> (\<not> analyzing_speech d \<longrightarrow> sense inp = Inr (e, a) \<longrightarrow>
        engagement_score (student_iteration inp d)
          = spec_score e a (teacher_pace d) (teacher_tone d)
        \<and> nudge (student_iteration inp d)
          = main_nudge (spec_score e a (teacher_pace d) (teacher_tone d)))"
proof -
  have "main_nudge 95 = nudge_all_good"
    using main_nudge_bands [of 95] by simp
  moreover have "\<not> analyzing_speech d \<longrightarrow> sense inp = Inr (e, a) \<longrightarrow>
        engagement_score (student_iteration inp d)
          = spec_score e a (teacher_pace d) (teacher_tone d)
        \<and> nudge (student_iteration inp d)
          = main_nudge (spec_score e a (teacher_pace d) (teacher_tone d))"
    by (simp add: iteration_commit student_commit_def calculate_score_spec)
  ultimately show ?thesis
    using calculate_score_spec [of e a p t] calculate_score_range [of e a p t]
      main_nudge_bands [of s] scenario_c
    by simp
qed

theorem engagement_score_and_nudge_witness:
  "\<not> analyzing_speech (dashboard_data 0)
   \<and> sense \<lparr>emotion_in = Inr ''happy'', audio_in = Inr (''active'', []), now = 1\<rparr>
       = Inr (''happy'', ''active'')
   \<and> engagement_score
        (student_iteration
           \<lparr>emotion_in = Inr ''happy'', audio_in = Inr (''active'', []), now = 1\<rparr>
           (dashboard_data 0)) = 80
   \<and> nudge
        (student_iteration
           \<lparr>emotion_in = Inr ''happy'', audio_in = Inr (''active'', []), now = 1\<rparr>
           (dashboard_data 0)) = nudge_all_good"
proof -
  have idle: "\<not> analyzing_speech (dashboard_data 0)"
    by (simp add: dashboard_data_def)
  have sensed:
    "sense \<lparr>emotion_in = Inr ''happy'', audio_in = Inr (''active'', []), now = 1\<rparr>
       = Inr (''happy'', ''active'')"
    by (simp add: sense_def)
  have score: "spec_score ''happy'' ''active'' ''unknown'' ''unknown'' = 80"
    by (simp add: spec_score_def spec_emotion_delta_def spec_audio_delta_def
        spec_pace_delta_def spec_tone_delta_def spec_clamp_def)
  have fields: "teacher_pace (dashboard_data 0) = ''unknown''
      \<and> teacher_tone (dashboard_data 0) = ''unknown''"
    by (simp add: dashboard_data_def)
  from idle sensed score fields
    engagement_score_and_nudge
      [where d = "dashboard_data 0" and e = "''happy''" and a = "''active''" and s = 80
        and inp = "\<lparr>emotion_in = Inr ''happy'', audio_in = Inr (''active'', []), now = 1\<rparr>"]
  show ?thesis by simp
qed


section \<open>Speech nudge\<close>

lemma pace_nudges_spec: "pace_nudges p ns = ns @ present [spec_pace_message p]"
  by (simp add: pace_nudges_def spec_pace_message_def spec_pace_templates_def)

lemma monotone_nudges_spec: "monotone_nudges t ns = ns @ present [spec_monotone_message t]"
  by (simp add: monotone_nudges_def spec_monotone_message_def)

lemma energy_nudges_spec: "energy_nudges t ns = ns @ present [spec_energy_message t]"
  by (simp add: energy_nudges_def spec_energy_message_def)

lemma present_append: "present (xs @ ys) = present xs @ present ys"
  by (induction xs rule: present.induct) simp_all

lemma present_empty: "present ms = [] \<longleftrightarrow> (\<forall>m \<in> set ms. m = None)"
  by (induction ms rule: present.induct) simp_all

lemma nudges_present:
  "energy_nudges t (monotone_nudges t (pace_nudges p [])) =
   present [spec_pace_message p, spec_monotone_message t, spec_energy_message t]"
proof -
  have "[spec_pace_message p, spec_monotone_message t, spec_energy_message t]
        = ([spec_pace_message p] @ [spec_monotone_message t]) @ [spec_energy_message t]"
    by simp
  then show ?thesis
    by (simp only: pace_nudges_spec monotone_nudges_spec energy_nudges_spec present_append
        append_Nil)
qed

lemma generate_spec: "generate_speech_nudge p t = spec_speech_nudge p t"
  by (simp add: generate_speech_nudge_def spec_speech_nudge_def nudges_present Let_def
      split: list.split)

lemma marked_join: "marked m \<Longrightarrow> marked (join sep (m # ms))"
  by (cases ms) (auto simp add: marked_def split: list.splits)

lemma all_good_unmarked: "\<not> marked msg_all_good_speech"
  by (simp add: marked_def msg_all_good_speech_def emoji_check_def)

lemma marked_msgs:
  "marked (msg_too_fast w)" "marked (msg_fast w)" "marked (msg_too_slow w)"
  "marked (msg_slow w)" "marked msg_unclear" "marked msg_monotone" "marked msg_too_quiet"
  "marked msg_too_loud"
  by (simp_all add: marked_def msg_defs emoji_defs)

lemma pace_message_marked: "spec_pace_message p = Some m \<Longrightarrow> marked m"
  using marked_msgs
  by (auto simp add: spec_pace_message_def spec_pace_templates_def split: if_splits)

lemma monotone_message_marked: "spec_monotone_message t = Some m \<Longrightarrow> marked m"
  using marked_msgs by (auto simp add: spec_monotone_message_def split: if_splits)

lemma energy_message_marked: "spec_energy_message t = Some m \<Longrightarrow> marked m"
  using marked_msgs by (auto simp add: spec_energy_message_def split: if_splits)

lemma present_marked:
  "present [spec_pace_message p, spec_monotone_message t, spec_energy_message t] = m # ms
   \<Longrightarrow> marked m"
  by (cases "spec_pace_message p"; cases "spec_monotone_message t";
      cases "spec_energy_message t")
     (auto dest: pace_message_marked monotone_message_marked energy_message_marked)

lemma all_good_iff:
  "generate_speech_nudge p t = msg_all_good_speech \<longleftrightarrow>
   spec_pace_message p = None \<and> spec_monotone_message t = None
   \<and> spec_energy_message t = None"
proof (cases "present [spec_pace_message p, spec_monotone_message t, spec_energy_message t]")
  case Nil
  then have "spec_pace_message p = None \<and> spec_monotone_message t = None
      \<and> spec_energy_message t = None"
    by (simp only: present_empty) simp
  with Nil show ?thesis by (simp add: generate_spec spec_speech_nudge_def)
next
  case (Cons m ms)
  then have "marked (join '' | '' (m # ms))"
    using present_marked marked_join by blast
  then have differs: "join '' | '' (m # ms) \<noteq> msg_all_good_speech"
    using all_good_unmarked by auto
  have "\<not> (spec_pace_message p = None \<and> spec_monotone_message t = None
      \<and> spec_energy_message t = None)"
  proof
    assume "spec_pace_message p = None \<and> spec_monotone_message t = None
      \<and> spec_energy_message t = None"
    then have
      "present [spec_pace_message p, spec_monotone_message t, spec_energy_message t] = []"
      by simp
    with Cons show False by simp
  qed
  with differs Cons show ?thesis by (simp add: generate_spec spec_speech_nudge_def)
qed

lemma pace_message_statuses:
  "spec_pace_message p \<noteq> None \<longleftrightarrow>
   pace_status p \<in> {''too_fast'', ''fast'', ''too_slow'', ''slow'', ''unclear''}"
  by (simp add: spec_pace_message_def spec_pace_templates_def)

lemma pace_nudges_unchanged:
  "pace_nudges p ns = ns \<longleftrightarrow>
   pace_status p \<notin> {''too_fast'', ''fast'', ''too_slow'', ''slow'', ''unclear''}"
  by (simp add: pace_nudges_def)

lemma error_pace_all_good:
  "pace_status p = ''error'' \<Longrightarrow> \<not> monotone t \<Longrightarrow> energy_status t \<noteq> ''too_quiet''
   \<Longrightarrow> energy_status t \<noteq> ''too_loud''
   \<Longrightarrow> generate_speech_nudge p t = msg_all_good_speech"
  by (simp add: generate_speech_nudge_def pace_nudges_def monotone_nudges_def
      energy_nudges_def)


text \<open>
  C8, as stated: the pace message is one of 6 templates keyed by pace status. Of the
  eight pace statuses of the data model the generator has a message for five; good,
  error and unknown have none.
\<close>

theorem six_pace_templates_counterexample:
  "length (filter has_pace_message spec_pace_statuses) = 5
   \<and> \<not> has_pace_message ''good'' \<and> \<not> has_pace_message ''error''
   \<and> \<not> has_pace_message ''unknown''"
  by (simp add: has_pace_message_def spec_pace_statuses_def pace_nudges_def)

text \<open>
  C8, amended. The speech nudge is a function of the pace result and the tone result
  alone. It joins with \<open>'' | ''\<close>, in this order, the pace message (one of 5 templates
  keyed by the pace statuses too\_fast, fast, too\_slow, slow and unclear, the first
  four embedding the wpm, unclear giving the microphone-check message), the monotone
  message exactly when monotone is true, and an energy message exactly when the energy
  status is too\_quiet or too\_loud. It returns the fixed all-good message exactly when
  none of the three messages qualifies.
\<close>

theorem speech_nudge_priority:
  "generate_speech_nudge p t = spec_speech_nudge p t
   \<and> (generate_speech_nudge p t = msg_all_good_speech \<longleftrightarrow>
        spec_pace_message p = None \<and> spec_monotone_message t = None
        \<and> spec_energy_message t = None)
   \<and> (spec_pace_message p \<noteq> None \<longleftrightarrow>
        pace_status p \<in> {''too_fast'', ''fast'', ''too_slow'', ''slow'', ''unclear''})
   \<and> length spec_pace_templates = 5"
  using generate_spec [of p t] all_good_iff [of p t] pace_message_statuses [of p]
  by (simp add: spec_pace_templates_def)

theorem speech_nudge_priority_witness:
  "generate_speech_nudge (analyze_pace exact (Heard 300 1440000 16000))
     (analyze_tone (Features (3 / 100) (5 / 100)))
   = msg_too_fast 200 @ '' | '' @ msg_monotone
   \<and> generate_speech_nudge (analyze_pace exact (Heard 300 1440000 16000))
       (analyze_tone (Features (3 / 100) (5 / 100))) \<noteq> msg_all_good_speech"
proof -
  have p: "analyze_pace exact (Heard 300 1440000 16000)
      = \<lparr>pace_status = ''too_fast'', pace_wpm = 200, pace_word_count = 300\<rparr>"
    by (simp add: analyze_pace_def duration_minutes_of_def py_truediv_def exact_def
        words_per_minute_def categorize_pace_def py_int_def)
  have t: "analyze_tone (Features (3 / 100) (5 / 100))
      = \<lparr>tone_status = ''monotone'', tone_energy = 3 / 100, energy_status = ''quiet'',
         tone_pitch_variation = 5 / 100, monotone = True\<rparr>"
    by (simp add: analyze_tone_def categorize_energy_def)
  have s: "spec_speech_nudge
        \<lparr>pace_status = ''too_fast'', pace_wpm = 200, pace_word_count = 300\<rparr>
        \<lparr>tone_status = ''monotone'', tone_energy = 3 / 100, energy_status = ''quiet'',
         tone_pitch_variation = 5 / 100, monotone = True\<rparr>
      = msg_too_fast 200 @ '' | '' @ msg_monotone"
    by (simp add: spec_speech_nudge_def spec_pace_message_def spec_pace_templates_def
        spec_monotone_message_def spec_energy_message_def)
  have n: "msg_too_fast 200 @ '' | '' @ msg_monotone \<noteq> msg_all_good_speech"
    by (simp add: msg_too_fast_def msg_all_good_speech_def emoji_defs)
  have "generate_speech_nudge
        \<lparr>pace_status = ''too_fast'', pace_wpm = 200, pace_word_count = 300\<rparr>
        \<lparr>tone_status = ''monotone'', tone_energy = 3 / 100, energy_status = ''quiet'',
         tone_pitch_variation = 5 / 100, monotone = True\<rparr>
      = msg_too_fast 200 @ '' | '' @ msg_monotone"
    using speech_nudge_priority
      [of "\<lparr>pace_status = ''too_fast'', pace_wpm = 200, pace_word_count = 300\<rparr>"
          "\<lparr>tone_status = ''monotone'', tone_energy = 3 / 100, energy_status = ''quiet'',
            tone_pitch_variation = 5 / 100, monotone = True\<rparr>"]
    by (simp only: s)
  with n show ?thesis unfolding p t by simp
qed

text \<open>
  C10. The generator appends no pace message exactly when the pace status is none of
  too\_fast, fast, too\_slow, slow and unclear, so none for good, error and unknown.
  For a pace result with status error, a tone result that is not monotone and an energy
  status that is neither too\_quiet nor too\_loud, the nudge is the all-good message
  "Great speech pace and tone! Keep it up!" behind the check-mark emoji.
\<close>

theorem error_pace_reported_all_good:
  "(pace_nudges p ns = ns \<longleftrightarrow>
      pace_status p \<notin> {''too_fast'', ''fast'', ''too_slow'', ''slow'', ''unclear''})
   \<and> (pace_status p \<in> {''good'', ''error'', ''unknown''} \<longrightarrow> pace_nudges p ns = ns)
   \<and> (pace_status p = ''error'' \<longrightarrow> \<not> monotone t \<longrightarrow>
        energy_status t \<noteq> ''too_quiet'' \<longrightarrow> energy_status t \<noteq> ''too_loud'' \<longrightarrow>
        generate_speech_nudge p t
          = emoji_check @ '' Great speech pace and tone! Keep it up!'')"
proof -
  have "pace_status p \<in> {''good'', ''error'', ''unknown''} \<longrightarrow> pace_nudges p ns = ns"
    by (auto simp add: pace_nudges_def)
  then show ?thesis
    using pace_nudges_unchanged [of p ns] error_pace_all_good [of p t]
    by (simp add: msg_all_good_speech_def)
qed

theorem error_pace_reported_all_good_witness:
  "pace_status (analyze_pace exact RequestError) = ''error''
   \<and> pace_status (analyze_pace exact RequestError) \<in> {''good'', ''error'', ''unknown''}
   \<and> \<not> monotone (analyze_tone (Features (1 / 10) (2 / 10)))
   \<and> energy_status (analyze_tone (Features (1 / 10) (2 / 10))) \<noteq> ''too_quiet''
   \<and> energy_status (analyze_tone (Features (1 / 10) (2 / 10))) \<noteq> ''too_loud''
   \<and> pace_nudges (analyze_pace exact RequestError) [] = []
   \<and> res_nudge (analyze_teacher_speech exact
        \<lparr>recording = Inr (), pace_in = RequestError, tone_in = Features (1 / 10) (2 / 10)\<rparr>)
       = emoji_check @ '' Great speech pace and tone! Keep it up!''
   \<and> res_pace (analyze_teacher_speech exact
        \<lparr>recording = Inr (), pace_in = RequestError, tone_in = Features (1 / 10) (2 / 10)\<rparr>)
       = ''error''"
proof -
  have p: "pace_status (analyze_pace exact RequestError) = ''error''"
    by (simp add: analyze_pace_def pace_error_def)
  have t: "\<not> monotone (analyze_tone (Features (1 / 10) (2 / 10)))
      \<and> energy_status (analyze_tone (Features (1 / 10) (2 / 10))) = ''good''"
    by (simp add: analyze_tone_def categorize_energy_def)
  from p t
    error_pace_reported_all_good
      [of "analyze_pace exact RequestError" "[]" "analyze_tone (Features (1 / 10) (2 / 10))"]
  show ?thesis by (simp add: analyze_teacher_speech_def Let_def)
qed


section \<open>The two cycles over the shared snapshot\<close>

subsection \<open>What the student cycle leaves alone\<close>

lemma student_sections_frame:
  "analyzing_speech (student_mark d) = analyzing_speech d
   \<and> teacher_pace (student_mark d) = teacher_pace d
   \<and> teacher_wpm (student_mark d) = teacher_wpm d
   \<and> teacher_tone (student_mark d) = teacher_tone d
   \<and> speech_nudge (student_mark d) = speech_nudge d"
  "analyzing_speech (student_commit sc em au nu tm d) = analyzing_speech d
   \<and> teacher_pace (student_commit sc em au nu tm d) = teacher_pace d
   \<and> teacher_wpm (student_commit sc em au nu tm d) = teacher_wpm d
   \<and> teacher_tone (student_commit sc em au nu tm d) = teacher_tone d
   \<and> speech_nudge (student_commit sc em au nu tm d) = speech_nudge d"
  "analyzing_speech (student_error e d) = analyzing_speech d
   \<and> teacher_pace (student_error e d) = teacher_pace d
   \<and> teacher_wpm (student_error e d) = teacher_wpm d
   \<and> teacher_tone (student_error e d) = teacher_tone d
   \<and> speech_nudge (student_error e d) = speech_nudge d"
  by (simp_all add: student_mark_def student_commit_def student_error_def)

lemma student_step_fields:
  "analyzing_speech (shared (student_step inp s)) = analyzing_speech (shared s)
   \<and> teacher_pace (shared (student_step inp s)) = teacher_pace (shared s)
   \<and> teacher_wpm (shared (student_step inp s)) = teacher_wpm (shared s)
   \<and> teacher_tone (shared (student_step inp s)) = teacher_tone (shared s)
   \<and> speech_nudge (shared (student_step inp s)) = speech_nudge (shared s)
   \<and> tasks (student_step inp s) = tasks s"
proof (cases "student s")
  case S_Check
  then show ?thesis by (simp add: student_step_def)
next
  case S_Mark
  then show ?thesis by (simp add: student_step_def student_sections_frame)
next
  case S_Sense
  show ?thesis
  proof (cases "sense inp")
    case (Inl e)
    with S_Sense show ?thesis by (simp add: student_step_def)
  next
    case (Inr sensed)
    then obtain em au where "sense inp = Inr (em, au)" by (cases sensed) simp
    with S_Sense show ?thesis by (simp add: student_step_def Let_def)
  qed
next
  case (S_Commit sc em au nu)
  then show ?thesis by (simp add: student_step_def student_sections_frame)
next
  case (S_Error e)
  then show ?thesis by (simp add: student_step_def student_sections_frame)
qed

lemma student_iteration_fields:
  "analyzing_speech (student_iteration inp d) = analyzing_speech d
   \<and> teacher_pace (student_iteration inp d) = teacher_pace d
   \<and> teacher_wpm (student_iteration inp d) = teacher_wpm d
   \<and> teacher_tone (student_iteration inp d) = teacher_tone d
   \<and> speech_nudge (student_iteration inp d) = speech_nudge d"
proof (cases "analyzing_speech d")
  case True
  then show ?thesis by (simp add: student_iteration_def)
next
  case False
  show ?thesis
  proof (cases "sense inp")
    case (Inl e)
    with False show ?thesis
      by (simp add: student_iteration_def Let_def student_sections_frame)
  next
    case (Inr sensed)
    then obtain em au where "sense inp = Inr (em, au)" by (cases sensed) simp
    with False show ?thesis
      by (simp add: student_iteration_def Let_def student_sections_frame)
  qed
qed

lemma update_student_data_fields:
  "analyzing_speech (update_student_data inps d) = analyzing_speech d
   \<and> teacher_pace (update_student_data inps d) = teacher_pace d
   \<and> teacher_wpm (update_student_data inps d) = teacher_wpm d
   \<and> teacher_tone (update_student_data inps d) = teacher_tone d
   \<and> speech_nudge (update_student_data inps d) = speech_nudge d"
  by (induction inps arbitrary: d) (simp_all add: student_iteration_fields)

lemma student_skips_when_busy:
  "student s = S_Check \<Longrightarrow> analyzing_speech (shared s) \<Longrightarrow> student_step inp s = s"
  by (simp add: student_step_def)

lemma iteration_skips_when_busy: "analyzing_speech d \<Longrightarrow> student_iteration inp d = d"
  by (simp add: student_iteration_def)


subsection \<open>One speech thread at a time\<close>

lemma exclusive_boot: "exclusive (boot t0) \<and> released (boot t0)"
  by (simp add: exclusive_def released_def boot_def dashboard_data_def)

lemma exclusive_student: "exclusive s \<Longrightarrow> exclusive (student_step inp s)"
  by (simp add: exclusive_def student_step_fields)

lemma released_student: "released s \<Longrightarrow> released (student_step inp s)"
  by (simp add: released_def student_step_fields)

lemma exclusive_trigger: "exclusive s \<Longrightarrow> exclusive (trigger_step s)"
  by (auto simp add: exclusive_def trigger_step_def analyze_speech_def)

lemma released_trigger: "released s \<Longrightarrow> released (trigger_step s)"
  by (auto simp add: released_def trigger_step_def analyze_speech_def)

lemma finish_clears:
  "caught outcome \<Longrightarrow>
   \<not> analyzing_speech (analyze_finish outcome d) \<and> \<not> analyzing_speech (analyze outcome d)"
  by (cases outcome)
     (simp_all add: analyze_def analyze_finish_def analyze_commit_def analyze_error_def)


lemma exclusive_speech:
  assumes ex: "exclusive s"
  shows "exclusive (speech_step i outcome s)"
proof (cases "tasks s")
  case Nil
  with ex show ?thesis by (simp add: speech_step_def)
next
  case (Cons tk ts)
  with ex have ts: "ts = []" by (simp add: exclusive_def)
  show ?thesis
  proof (cases "i = 0")
    case True
    with Cons ts ex show ?thesis
      by (cases tk) (simp_all add: speech_step_def exclusive_def analyze_progress_def)
  next
    case False
    with Cons ts ex show ?thesis by (simp add: speech_step_def)
  qed
qed

lemma released_speech:
  assumes ex: "exclusive s" and re: "released s" and ca: "caught outcome"
  shows "released (speech_step i outcome s)"
proof (cases "tasks s")
  case Nil
  with re show ?thesis by (simp add: speech_step_def)
next
  case (Cons tk ts)
  with ex have ts: "ts = []" by (simp add: exclusive_def)
  show ?thesis
  proof (cases "i = 0")
    case True
    with Cons ts ca show ?thesis
      by (cases tk) (simp_all add: speech_step_def released_def finish_clears)
  next
    case False
    with Cons ts re show ?thesis by (simp add: speech_step_def)
  qed
qed

lemma exclusive_step: "exclusive s \<Longrightarrow> exclusive (step e s)"
  by (cases e) (simp_all add: exclusive_student exclusive_trigger exclusive_speech)

lemma released_step: "exclusive s \<Longrightarrow> released s \<Longrightarrow> handled e \<Longrightarrow> released (step e s)"
  by (cases e) (simp_all add: released_student released_trigger released_speech)

lemma exclusive_run: "exclusive s \<Longrightarrow> exclusive (run es s)"
  by (induction es arbitrary: s) (simp_all add: exclusive_step)

lemma released_run:
  "exclusive s \<Longrightarrow> released s \<Longrightarrow> list_all handled es \<Longrightarrow> released (run es s)"
  by (induction es arbitrary: s) (simp_all add: exclusive_step released_step)

lemma exclusive_reachable: "exclusive (run es (boot t0))"
  by (simp add: exclusive_run exclusive_boot)

lemma released_reachable: "list_all handled es \<Longrightarrow> released (run es (boot t0))"
  by (simp add: released_run exclusive_boot)

lemma speech_two_sections:
  "tasks s = [T_Progress] \<Longrightarrow> caught outcome \<Longrightarrow>
   tasks (run [Speech 0 progress_outcome, Speech 0 outcome] s) = []
   \<and> \<not> analyzing_speech (shared (run [Speech 0 progress_outcome, Speech 0 outcome] s))"
  by (simp add: speech_step_def finish_clears)

lemma speech_finish_section:
  "i < length (tasks s) \<Longrightarrow> tasks s ! i = T_Finish \<Longrightarrow> caught outcome \<Longrightarrow>
   \<not> analyzing_speech (shared (speech_step i outcome s))"
  by (simp add: speech_step_def finish_clears)

lemma analyze_error_writes:
  "speech_nudge (analyze (Raised e) d) = ''Error analyzing speech: '' @ e
   \<and> status (analyze (Raised e) d) = ''Error occurred''
   \<and> teacher_pace (analyze (Raised e) d) = teacher_pace d
   \<and> teacher_wpm (analyze (Raised e) d) = teacher_wpm d
   \<and> teacher_tone (analyze (Raised e) d) = teacher_tone d"
  by (simp add: analyze_def analyze_finish_def analyze_error_def analyze_progress_def)

lemma trigger_busy:
  "analyzing_speech (shared s) \<Longrightarrow>
   shared (trigger_step s) = shared s \<and> tasks (trigger_step s) = tasks s
   \<and> replies (trigger_step s) = replies s @ [resp_already]"
  by (simp add: trigger_step_def analyze_speech_def)

lemma trigger_idle:
  "\<not> analyzing_speech (shared s) \<Longrightarrow>
   analyzing_speech (shared (trigger_step s)) \<and> tasks (trigger_step s) = tasks s @ [T_Progress]
   \<and> replies (trigger_step s) = replies s @ [resp_started]"
  by (simp add: trigger_step_def analyze_speech_def)

text \<open>
  C2. A request that meets the busy flag set is answered with the rejection
  "Already analyzing speech", starts no thread and leaves the whole snapshot, so also
  the teacher fields, as it was. A request that meets the flag clear sets it, is
  answered with the acceptance and starts the thread. Test and set are one locked
  section (one step of the handler), and in every run of the three threads at most
  one speech thread exists.
\<close>

theorem trigger_test_and_set:
  "(analyzing_speech d \<longrightarrow> analyze_speech d = (d, resp_already, False))
   \<and> (\<not> analyzing_speech d \<longrightarrow>
        analyzing_speech (fst (analyze_speech d))
        \<and> snd (analyze_speech d) = (resp_started, True))
   \<and> resp_status resp_already = ''error'' \<and> resp_status resp_started = ''success''
   \<and> (analyzing_speech (shared s) \<longrightarrow>
        shared (trigger_step s) = shared s \<and> tasks (trigger_step s) = tasks s
        \<and> replies (trigger_step s) = replies s @ [resp_already])
   \<and> (\<not> analyzing_speech (shared s) \<longrightarrow>
        analyzing_speech (shared (trigger_step s))
        \<and> tasks (trigger_step s) = tasks s @ [T_Progress]
        \<and> replies (trigger_step s) = replies s @ [resp_started])
   \<and> length (tasks (run es (boot t0))) \<le> 1"
proof -
  have "length (tasks (run es (boot t0))) \<le> 1"
    using exclusive_reachable [of es t0] by (simp add: exclusive_def)
  then show ?thesis
    using trigger_busy [of s] trigger_idle [of s]
    by (simp add: analyze_speech_def resp_already_def resp_started_def)
qed

theorem trigger_test_and_set_witness:
  "\<not> analyzing_speech (shared (boot 0))
   \<and> analyzing_speech (shared (trigger_step (boot 0)))
   \<and> tasks (trigger_step (boot 0)) = [T_Progress]
   \<and> replies (trigger_step (boot 0)) = [resp_started]
   \<and> shared (trigger_step (trigger_step (boot 0))) = shared (trigger_step (boot 0))
   \<and> tasks (trigger_step (trigger_step (boot 0))) = [T_Progress]
   \<and> replies (trigger_step (trigger_step (boot 0))) = [resp_started, resp_already]
   \<and> analyze_speech (shared (trigger_step (boot 0)))
       = (shared (trigger_step (boot 0)), resp_already, False)"
proof -
  have idle: "\<not> analyzing_speech (shared (boot 0))"
    by (simp add: boot_def dashboard_data_def)
  have start: "tasks (boot 0) = [] \<and> replies (boot 0) = []"
    by (simp add: boot_def)
  from idle start trigger_test_and_set [where s = "boot 0" and d = "shared (boot 0)"]
  have first: "analyzing_speech (shared (trigger_step (boot 0)))
      \<and> tasks (trigger_step (boot 0)) = [T_Progress]
      \<and> replies (trigger_step (boot 0)) = [resp_started]"
    by simp
  with idle
    trigger_test_and_set
      [where s = "trigger_step (boot 0)" and d = "shared (trigger_step (boot 0))"]
  show ?thesis by simp
qed


text \<open>
  C3, as stated: a started speech cycle clears the busy flag whether its work succeeds
  or raises any exception. A raise that the handler does not catch ends the thread
  with the flag set: after request, progress section and such a raise no speech
  thread exists, the flag is set, and the next request is rejected.
\<close>

theorem escaped_raise_keeps_flag_counterexample:
  "tasks (run [Trigger, Speech 0 Escaped, Speech 0 Escaped] (boot 0)) = []
   \<and> analyzing_speech (shared (run [Trigger, Speech 0 Escaped, Speech 0 Escaped] (boot 0)))
   \<and> replies (run [Trigger, Speech 0 Escaped, Speech 0 Escaped, Trigger] (boot 0))
       = [resp_started, resp_already]"
  by (simp add: boot_def dashboard_data_def trigger_step_def analyze_speech_def
      speech_step_def analyze_progress_def analyze_finish_def)

text \<open>
  C3, amended. Every started speech cycle whose work returns or raises an exception of
  class \<^verbatim>\<open>Exception\<close> that the handler reports reaches a last locked section that
  clears the busy flag, whatever the snapshot holds by then; on the exception path it
  writes "Error analyzing speech: " with the exception's message into the speech nudge
  and "Error occurred" into the status. Such a thread is through after its two locked
  sections, and in every run of the three threads in which no raise escapes the
  handler the flag is clear whenever no speech thread exists.
\<close>

theorem speech_cycle_clears_flag:
  "(caught outcome \<longrightarrow>
      \<not> analyzing_speech (analyze outcome d)
      \<and> \<not> analyzing_speech (analyze_finish outcome d))
   \<and> speech_nudge (analyze (Raised e) d) = ''Error analyzing speech: '' @ e
   \<and> status (analyze (Raised e) d) = ''Error occurred''
   \<and> (i < length (tasks s) \<longrightarrow> tasks s ! i = T_Finish \<longrightarrow> caught outcome \<longrightarrow>
        \<not> analyzing_speech (shared (speech_step i outcome s)))
   \<and> (tasks s = [T_Progress] \<longrightarrow> caught outcome \<longrightarrow>
        tasks (run [Speech 0 progress_outcome, Speech 0 outcome] s) = []
        \<and> \<not> analyzing_speech (shared (run [Speech 0 progress_outcome, Speech 0 outcome] s)))
   \<and> (list_all handled es \<longrightarrow> tasks (run es (boot t0)) = [] \<longrightarrow>
        \<not> analyzing_speech (shared (run es (boot t0))))"
proof -
  have "list_all handled es \<longrightarrow> tasks (run es (boot t0)) = [] \<longrightarrow>
        \<not> analyzing_speech (shared (run es (boot t0)))"
    using released_reachable [of es t0] by (simp add: released_def)
  moreover have "tasks s = [T_Progress] \<longrightarrow> caught outcome \<longrightarrow>
        tasks (run [Speech 0 progress_outcome, Speech 0 outcome] s) = []
        \<and> \<not> analyzing_speech (shared (run [Speech 0 progress_outcome, Speech 0 outcome] s))"
    using speech_two_sections [of s outcome progress_outcome] by blast
  moreover have "i < length (tasks s) \<longrightarrow> tasks s ! i = T_Finish \<longrightarrow> caught outcome \<longrightarrow>
        \<not> analyzing_speech (shared (speech_step i outcome s))"
    using speech_finish_section [of i s outcome] by blast
  moreover have "caught outcome \<longrightarrow>
      \<not> analyzing_speech (analyze outcome d)
      \<and> \<not> analyzing_speech (analyze_finish outcome d)"
    using finish_clears [of outcome d] by blast
  ultimately show ?thesis
    using analyze_error_writes [of e d] by blast
qed

theorem speech_cycle_clears_flag_witness:
  "caught (Raised ''mic'')
   \<and> analyzing_speech (shared (trigger_step (boot 0)))
   \<and> tasks (trigger_step (boot 0)) = [T_Progress]
   \<and> tasks (run [Speech 0 (Raised ''mic''), Speech 0 (Raised ''mic'')]
        (trigger_step (boot 0))) = []
   \<and> \<not> analyzing_speech
        (shared (run [Speech 0 (Raised ''mic''), Speech 0 (Raised ''mic'')]
           (trigger_step (boot 0))))
   \<and> speech_nudge (analyze (Raised ''mic'') (shared (trigger_step (boot 0))))
       = ''Error analyzing speech: mic''
   \<and> status (analyze (Raised ''mic'') (shared (trigger_step (boot 0)))) = ''Error occurred''
   \<and> list_all handled [Trigger, Speech 0 (Raised ''mic''), Speech 0 (Raised ''mic'')]
   \<and> tasks (run [Trigger, Speech 0 (Raised ''mic''), Speech 0 (Raised ''mic'')] (boot 0)) = []
   \<and> \<not> analyzing_speech
        (shared (run [Trigger, Speech 0 (Raised ''mic''), Speech 0 (Raised ''mic'')] (boot 0)))"
proof -
  have started: "analyzing_speech (shared (trigger_step (boot 0)))
      \<and> tasks (trigger_step (boot 0)) = [T_Progress]"
    by (simp add: trigger_step_def analyze_speech_def boot_def dashboard_data_def)
  have finished: "tasks (run [Trigger, Speech 0 (Raised ''mic''), Speech 0 (Raised ''mic'')]
      (boot 0)) = []"
    by (simp add: trigger_step_def analyze_speech_def boot_def dashboard_data_def
        speech_step_def)
  from started finished
    speech_cycle_clears_flag
      [where s = "trigger_step (boot 0)" and outcome = "Raised ''mic''" and e = "''mic''"
        and progress_outcome = "Raised ''mic''" and d = "shared (trigger_step (boot 0))"
        and es = "[Trigger, Speech 0 (Raised ''mic''), Speech 0 (Raised ''mic'')]"
        and ?t0.0 = 0]
  show ?thesis by simp
qed

text \<open>
  C4, as stated: the four fields change only when a speech cycle commits its results.
  The request handler writes the speech nudge as it accepts a request, and the thread
  writes it again before it records, while the teacher's pace is still the one of
  start-up.
\<close>

theorem speech_nudge_written_before_commit_counterexample:
  "speech_nudge (dashboard_data 0) = []
   \<and> speech_nudge (fst (analyze_speech (dashboard_data 0))) = ''Preparing to record...''
   \<and> speech_nudge (analyze_progress (fst (analyze_speech (dashboard_data 0))))
       = emoji_red_circle @ '' Recording for 10 seconds... Speak naturally!''
   \<and> analyzing_speech (analyze_progress (fst (analyze_speech (dashboard_data 0))))
   \<and> teacher_pace (analyze_progress (fst (analyze_speech (dashboard_data 0)))) = ''unknown''"
  by (simp add: dashboard_data_def analyze_speech_def analyze_progress_def)

text \<open>
  C4, amended. The student cycle never writes teacher\_pace, teacher\_wpm,
  teacher\_tone or speech\_nudge: they are unchanged across any number of passes of
  the loop and across every locked section of the student thread. The first three
  change only when a speech cycle commits its results: the request handler, the
  thread's progress section and its exception handler leave them as they are, and the
  commit sets them, and the speech nudge, to the result's values.
\<close>

theorem student_cycle_frame:
  "teacher_pace (update_student_data inps d) = teacher_pace d
   \<and> teacher_wpm (update_student_data inps d) = teacher_wpm d
   \<and> teacher_tone (update_student_data inps d) = teacher_tone d
   \<and> speech_nudge (update_student_data inps d) = speech_nudge d
   \<and> teacher_pace (shared (student_step inp s)) = teacher_pace (shared s)
   \<and> teacher_wpm (shared (student_step inp s)) = teacher_wpm (shared s)
   \<and> teacher_tone (shared (student_step inp s)) = teacher_tone (shared s)
   \<and> speech_nudge (shared (student_step inp s)) = speech_nudge (shared s)
   \<and> teacher_pace (fst (analyze_speech d)) = teacher_pace d
   \<and> teacher_wpm (fst (analyze_speech d)) = teacher_wpm d
   \<and> teacher_tone (fst (analyze_speech d)) = teacher_tone d
   \<and> teacher_pace (analyze_progress d) = teacher_pace d
   \<and> teacher_wpm (analyze_progress d) = teacher_wpm d
   \<and> teacher_tone (analyze_progress d) = teacher_tone d
   \<and> teacher_pace (analyze_error e d) = teacher_pace d
   \<and> teacher_wpm (analyze_error e d) = teacher_wpm d
   \<and> teacher_tone (analyze_error e d) = teacher_tone d
   \<and> teacher_pace (analyze_commit result d) = res_pace result
   \<and> teacher_wpm (analyze_commit result d) = res_wpm result
   \<and> teacher_tone (analyze_commit result d) = res_tone result
   \<and> speech_nudge (analyze_commit result d) = res_nudge result"
  using update_student_data_fields [of inps d] student_step_fields [of inp s]
  by (simp add: analyze_speech_def analyze_progress_def analyze_error_def analyze_commit_def)


subsection \<open>A request that arrives during a pass of the student loop\<close>

lemma race_sense: "sense race_input = Inr (''sad'', ''silent'')"
  by (simp add: sense_def race_input_def)

lemma race_score: "calculate_score ''sad'' ''silent'' ''unknown'' ''unknown'' = 10"
  by (simp add: calculate_score_def emotion_impact_def audio_impact_def pace_impact_def
      tone_impact_def)

lemma boot_fields:
  "\<not> analyzing_speech (dashboard_data t0) \<and> teacher_pace (dashboard_data t0) = ''unknown''
   \<and> teacher_tone (dashboard_data t0) = ''unknown''"
  by (simp add: dashboard_data_def)

lemma race_before:
  "run race_start (boot 0) =
     \<lparr>shared = analyze_progress (student_mark (fst (analyze_speech (dashboard_data 0)))),
      student = S_Commit 10 ''sad'' ''silent'' (main_nudge 10), tasks = [T_Finish],
      replies = [resp_started]\<rparr>"
proof -
  let ?d1 = "fst (analyze_speech (dashboard_data 0))"
  have s1: "step (Student race_input) (boot 0)
      = \<lparr>shared = dashboard_data 0, student = S_Mark, tasks = [], replies = []\<rparr>"
    by (simp add: boot_def student_step_def boot_fields)
  have s2: "step Trigger \<lparr>shared = dashboard_data 0, student = S_Mark, tasks = [], replies = []\<rparr>
      = \<lparr>shared = ?d1, student = S_Mark, tasks = [T_Progress], replies = [resp_started]\<rparr>"
    by (simp add: trigger_step_def analyze_speech_def boot_fields)
  have s3: "step (Student race_input)
        \<lparr>shared = ?d1, student = S_Mark, tasks = [T_Progress], replies = [resp_started]\<rparr>
      = \<lparr>shared = student_mark ?d1, student = S_Sense, tasks = [T_Progress],
         replies = [resp_started]\<rparr>"
    by (simp add: student_step_def)
  have s4: "step (Speech 0 (Raised []))
        \<lparr>shared = student_mark ?d1, student = S_Sense, tasks = [T_Progress],
         replies = [resp_started]\<rparr>
      = \<lparr>shared = analyze_progress (student_mark ?d1), student = S_Sense, tasks = [T_Finish],
         replies = [resp_started]\<rparr>"
    by (simp add: speech_step_def)
  have f: "teacher_pace (analyze_progress (student_mark ?d1)) = ''unknown''
      \<and> teacher_tone (analyze_progress (student_mark ?d1)) = ''unknown''"
    by (simp add: analyze_progress_def student_mark_def analyze_speech_def boot_fields)
  have s5: "step (Student race_input)
        \<lparr>shared = analyze_progress (student_mark ?d1), student = S_Sense, tasks = [T_Finish],
         replies = [resp_started]\<rparr>
      = \<lparr>shared = analyze_progress (student_mark ?d1),
         student = S_Commit 10 ''sad'' ''silent'' (main_nudge 10), tasks = [T_Finish],
         replies = [resp_started]\<rparr>"
    by (simp add: student_step_def race_sense f race_score)
  show ?thesis
    by (simp only: race_start_def run.simps s1 s2 s3 s4 s5)
qed

lemma run_append: "run (xs @ ys) s = run ys (run xs s)"
  by (induction xs arbitrary: s) simp_all

lemma race_last:
  "run race (boot 0) = step (Student race_input) (run race_start (boot 0))"
  by (simp add: race_def run_append)

lemma race_after:
  "run race (boot 0) =
     \<lparr>shared = student_commit 10 ''sad'' ''silent'' (main_nudge 10) 1
                 (analyze_progress (student_mark (fst (analyze_speech (dashboard_data 0))))),
      student = S_Check, tasks = [T_Finish], replies = [resp_started]\<rparr>"
  by (simp only: race_last race_before) (simp add: student_step_def race_input_def)


lemma boot_score: "engagement_score (dashboard_data t0) = 50"
  by (simp add: dashboard_data_def)

text \<open>
  C1. The student cycle and a speech cycle are never to interleave their reads and
  writes of the snapshot while the speech cycle owns the busy flag. A pass of the
  student loop that meets the flag set does nothing (\<open>student_skips_when_busy\<close>). But in the
  schedule \<open>race\<close> the request arrives after the student loop has passed its check:
  the request is accepted and the flag set, the speech thread writes its progress, and
  then the student thread commits score, emotion and status over it while the speech
  thread still owns the flag.
\<close>

theorem student_writes_while_speech_owns_flag:
  "analyzing_speech (shared (run race_start (boot 0)))
   \<and> tasks (run race_start (boot 0)) = [T_Finish]
   \<and> status (shared (run race_start (boot 0))) = ''Recording your speech...''
   \<and> engagement_score (shared (run race_start (boot 0))) = 50
   \<and> analyzing_speech (shared (run race (boot 0)))
   \<and> tasks (run race (boot 0)) = [T_Finish]
   \<and> status (shared (run race (boot 0))) = ''Active''
   \<and> engagement_score (shared (run race (boot 0))) = 10
   \<and> emotion (shared (run race (boot 0))) = ''sad''"
  by (simp only: race_before race_after)
     (simp add: student_commit_def analyze_progress_def student_mark_def analyze_speech_def
        boot_fields boot_score)

subsection \<open>Failures of a cycle\<close>






end
